theory Spec2Isabelle
  imports Complex_Main
begin

section \<open>Python values and library functions used by the backend\<close>

text \<open>
  The backend is Python. Exceptions are values of \<open>py_error\<close> and a call that may raise
  returns \<open>py_error + 'a\<close> (\<open>Inl\<close> is the exception). Strings are lists of
  characters with code points below 256. The operating system, the FFmpeg
  subprocess, the HTTP backend, the string hash, the clock and \<open>json.loads\<close> are not code
  of the repository: they are fields of an environment record that every operation
  takes as an argument.
\<close>

datatype py_error =
    ValueError string
  | AttributeError string
  | OSError string
  | OverflowError string
  | MemoryError string
  | Exception string

fun str_error :: "py_error \<Rightarrow> string" where
  "str_error (ValueError m) = m"
| "str_error (AttributeError m) = m"
| "str_error (OSError m) = m"
| "str_error (OverflowError m) = m"
| "str_error (MemoryError m) = m"
| "str_error (Exception m) = m"

text \<open>\<open>str(n)\<close> for an integer, as the f-strings of the source print it.\<close>

fun str_nat :: "nat \<Rightarrow> string" where
  "str_nat n =
     (if n < 10 then [''0123456789'' ! n]
      else str_nat (n div 10) @ [''0123456789'' ! (n mod 10)])"

declare str_nat.simps [simp del]

definition str_int :: "int \<Rightarrow> string" where
  "str_int i = (if i < 0 then CHR ''-'' # str_nat (nat (- i)) else str_nat (nat i))"

text \<open>\<open>int(x)\<close> on a finite float truncates towards zero.\<close>

definition py_int :: "rat \<Rightarrow> int" where
  "py_int r = (if 0 \<le> r then \<lfloor>r\<rfloor> else \<lceil>r\<rceil>)"

text \<open>A Python float: a finite value, an infinity or NaN. The finite values are kept as
  rationals; which rationals are binary64 numbers, and how an exact result is rounded to
  one (or overflows to an infinity), is not fixed here: every float operation is the
  exact operation followed by the rounding function \<open>fl\<close>, which the environment
  supplies. Signed zeros are not told apart.\<close>

datatype pyfloat = Finite rat | PosInf | NegInf | NaN

text \<open>A number that is an \<open>int\<close> or a \<open>float\<close>, as \<open>max(1, x)\<close> returns.\<close>

datatype py_num = PyInt int | PyFloat pyfloat

text \<open>\<open>x * y\<close> on floats.\<close>

fun float_mul :: "(rat \<Rightarrow> pyfloat) \<Rightarrow> pyfloat \<Rightarrow> pyfloat \<Rightarrow> pyfloat" where
  "float_mul fl (Finite a) (Finite b) = fl (a * b)"
| "float_mul fl NaN y = NaN"
| "float_mul fl x NaN = NaN"
| "float_mul fl PosInf (Finite b) = (if b = 0 then NaN else if 0 < b then PosInf else NegInf)"
| "float_mul fl NegInf (Finite b) = (if b = 0 then NaN else if 0 < b then NegInf else PosInf)"
| "float_mul fl (Finite a) PosInf = (if a = 0 then NaN else if 0 < a then PosInf else NegInf)"
| "float_mul fl (Finite a) NegInf = (if a = 0 then NaN else if 0 < a then NegInf else PosInf)"
| "float_mul fl PosInf PosInf = PosInf"
| "float_mul fl PosInf NegInf = NegInf"
| "float_mul fl NegInf PosInf = NegInf"
| "float_mul fl NegInf NegInf = PosInf"

text \<open>\<open>x > 1\<close> for a float \<open>x\<close>; a comparison with NaN is false.\<close>

fun float_gt_one :: "pyfloat \<Rightarrow> bool" where
  "float_gt_one (Finite a) = (1 < a)"
| "float_gt_one PosInf = True"
| "float_gt_one NegInf = False"
| "float_gt_one NaN = False"

text \<open>\<open>max(1, x)\<close>: the float \<open>x\<close> when \<open>x > 1\<close>, else the integer 1.\<close>

definition py_max_one :: "pyfloat \<Rightarrow> py_num" where
  "py_max_one x = (if float_gt_one x then PyFloat x else PyInt 1)"

text \<open>\<open>i * d\<close> for an integer \<open>i\<close>: exact on integers, a float product otherwise (the
  integers the source multiplies are binary64 numbers).\<close>

fun int_times :: "(rat \<Rightarrow> pyfloat) \<Rightarrow> int \<Rightarrow> py_num \<Rightarrow> py_num" where
  "int_times fl i (PyInt j) = PyInt (i * j)"
| "int_times fl i (PyFloat x) = PyFloat (float_mul fl (Finite (of_int i)) x)"

text \<open>\<open>int(d)\<close>: truncation; an infinity raises \<open>OverflowError\<close>, NaN \<open>ValueError\<close>.\<close>

fun py_int_of :: "py_num \<Rightarrow> py_error + int" where
  "py_int_of (PyInt i) = Inr i"
| "py_int_of (PyFloat (Finite r)) = Inr (py_int r)"
| "py_int_of (PyFloat NaN) = Inl (ValueError ''cannot convert float NaN to integer'')"
| "py_int_of (PyFloat x) = Inl (OverflowError ''cannot convert float infinity to integer'')"

text \<open>\<open>s.split()\<close>: the maximal runs of non-whitespace characters. The whitespace
  characters are those with code points below 256 for which \<open>str.isspace\<close> holds.\<close>

definition is_space :: "char \<Rightarrow> bool" where
  "is_space c =
     (c \<in> set [CHR 0x20, CHR 0x09, CHR 0x0A, CHR 0x0B, CHR 0x0C, CHR 0x0D,
                CHR 0x1C, CHR 0x1D, CHR 0x1E, CHR 0x1F, CHR 0x85, CHR 0xA0])"

fun split_words :: "string \<Rightarrow> string \<Rightarrow> string list" where
  "split_words cur [] = (if cur = [] then [] else [rev cur])"
| "split_words cur (c # cs) =
     (if is_space c
      then (if cur = [] then split_words [] cs else rev cur # split_words [] cs)
      else split_words (c # cur) cs)"

definition py_split :: "string \<Rightarrow> string list" where
  "py_split s = split_words [] s"

text \<open>\<open>sub in s\<close> on strings: \<open>sub\<close> occurs in \<open>s\<close> as a contiguous block.\<close>

fun py_in :: "string \<Rightarrow> string \<Rightarrow> bool" where
  "py_in sub [] = (sub = [])"
| "py_in sub (c # cs) = (if take (length sub) (c # cs) = sub then True else py_in sub cs)"

text \<open>\<open>s.replace(old, new)\<close>: every non-overlapping occurrence, from the left.\<close>

function py_replace :: "string \<Rightarrow> string \<Rightarrow> string \<Rightarrow> string" where
  "py_replace old new s =
     (if old = [] then new @ concat (map (\<lambda>c. c # new) s)
      else if s = [] then []
      else if take (length old) s = old then new @ py_replace old new (drop (length old) s)
      else hd s # py_replace old new (tl s))"
  by pat_completeness auto
termination
  by (relation "measure (\<lambda>(old, new, s). length s)") auto

declare py_replace.simps [simp del]

text \<open>\<open>s.find(c)\<close> and \<open>s.rfind(c)\<close> for a one-character pattern: the index, or -1.\<close>

fun find_from :: "char \<Rightarrow> string \<Rightarrow> nat \<Rightarrow> int" where
  "find_from c [] i = - 1"
| "find_from c (x # xs) i = (if x = c then int i else find_from c xs (Suc i))"

definition py_find :: "string \<Rightarrow> char \<Rightarrow> int" where
  "py_find s c = find_from c s 0"

fun rfind_from :: "char \<Rightarrow> string \<Rightarrow> nat \<Rightarrow> int" where
  "rfind_from c [] i = - 1"
| "rfind_from c (x # xs) i =
     (let r = rfind_from c xs (Suc i)
      in if r \<noteq> - 1 then r else if x = c then int i else - 1)"

definition py_rfind :: "string \<Rightarrow> char \<Rightarrow> int" where
  "py_rfind s c = rfind_from c s 0"

text \<open>\<open>s[a:b]\<close> for \<open>0 \<le> a\<close> and \<open>0 \<le> b\<close>, the only slices the source takes.\<close>

definition py_slice :: "string \<Rightarrow> int \<Rightarrow> int \<Rightarrow> string" where
  "py_slice s a b = take (nat (b - a)) (drop (nat a) s)"

text \<open>\<open>sep.join(parts)\<close>.\<close>

fun py_join :: "string \<Rightarrow> string list \<Rightarrow> string" where
  "py_join sep [] = []"
| "py_join sep [p] = p"
| "py_join sep (p # q # ps) = p @ sep @ py_join sep (q # ps)"

text \<open>\<open>os.path.join(a, b)\<close> of posixpath, for two components.\<close>

definition os_path_join :: "string \<Rightarrow> string \<Rightarrow> string" where
  "os_path_join a b =
     (if take 1 b = ''/'' then b
      else if a = [] then a @ b
      else if last a = CHR ''/'' then a @ b
      else a @ ''/'' @ b)"

text \<open>\<open>x or d\<close> where \<open>x\<close> is \<open>None\<close>, a string or an integer.\<close>

definition or_str :: "string option \<Rightarrow> string \<Rightarrow> string" where
  "or_str x d = (case x of None \<Rightarrow> d | Some s \<Rightarrow> if s = [] then d else s)"

definition or_int :: "int option \<Rightarrow> int \<Rightarrow> int" where
  "or_int x d = (case x of None \<Rightarrow> d | Some i \<Rightarrow> if i = 0 then d else i)"

text \<open>A JSON value, as \<open>json.loads\<close> returns it and as the source builds dictionaries.\<close>

datatype json =
    JNull
  | JBool bool
  | JNum rat
  | JStr string
  | JArr "json list"
  | JObj "(string \<times> json) list"

record completed_process =
  returncode :: int
  stdout :: string
  stderr :: string

record payload =
  payload_model :: string
  payload_prompt :: string
  payload_stream :: bool
  num_predict :: nat
  temperature :: "rat option"
  top_p :: "rat option"

record http_response =
  status :: int
  response_field :: "string option"

text \<open>
  The environment. \<open>subprocess_run\<close> is \<open>subprocess.run(cmd, capture_output=True,
  text=True)\<close>: it raises (\<open>Inl\<close>) when the program cannot be started.
  \<open>http_post url payload\<close> is the aiohttp POST with the body read as JSON;
  \<open>response_field\<close> is the body's \<open>"response"\<close> entry. \<open>json_loads\<close> returns \<open>None\<close>
  where \<open>json.loads\<close> raises \<open>JSONDecodeError\<close>. \<open>now_strftime\<close> is
  \<open>datetime.now().strftime('%Y%m%d_%H%M%S')\<close>. \<open>float_round\<close> rounds the exact result
  of a float operation to a float. \<open>np_zeros_error n\<close> is the exception \<open>np.zeros\<close>
  raises for a size it cannot allocate, and \<open>sf_write_error path\<close> the exception
  \<open>sf.write\<close> raises for a path it cannot write; \<open>None\<close> is success.
\<close>

record os_env =
  path_exists :: "string \<Rightarrow> bool"
  subprocess_run :: "string list \<Rightarrow> py_error + completed_process"
  py_hash :: "string \<Rightarrow> int"
  now_strftime :: string
  http_post :: "string \<Rightarrow> payload \<Rightarrow> py_error + http_response"
  json_loads :: "string \<Rightarrow> json option"
  float_round :: "rat \<Rightarrow> pyfloat"
  np_zeros_error :: "nat \<Rightarrow> py_error option"
  sf_write_error :: "string \<Rightarrow> py_error option"

section \<open>ollama_client.py\<close>

record script_request =
  topic :: string
  target_duration_seconds :: int
  tone :: string
  style :: string

record ollama_client =
  base_url :: string
  model_name :: string
  context_size :: int
  is_model_loaded :: bool

text \<open>A triple-quoted block of the source: a newline, the lines at the source's
  indentation of twelve spaces, and the indentation before the closing quotes.\<close>

definition prompt_block :: "string list \<Rightarrow> string" where
  "prompt_block ls =
     [CHR 0x0A] @ concat (map (\<lambda>l. replicate 12 (CHR '' '') @ l @ [CHR 0x0A]) ls)
       @ replicate 12 (CHR '' '')"

definition system_prompt :: string where
  "system_prompt = prompt_block
     [''You are a scriptwriter for engaging YouTube Shorts and TikTok videos.'',
      ''Your scripts should be conversational, highlight the main point quickly, '',
      ''and be exactly the target duration. Break the script into '',
      ''clear scenes with visual suggestions.'']"

text \<open>\<open>target_words = request.target_duration_seconds * 150 / 60\<close> (true division). The
  value is a multiple of one half, a binary64 number for every duration a request
  carries in practice, so it is kept exact.\<close>

definition target_words :: "script_request \<Rightarrow> rat" where
  "target_words request = of_int (target_duration_seconds request) * 150 / 60"

definition user_prompt :: "script_request \<Rightarrow> string" where
  "user_prompt request = prompt_block
     [''Write a script for a '' @ str_int (target_duration_seconds request)
        @ ''-second vertical short about '' @ [CHR 0x22] @ topic request @ [CHR 0x22] @ ''.'',
      [],
      ''Requirements:'',
      ''- Tone: '' @ tone request,
      ''- Style: '' @ style request,
      ''- Target duration: '' @ str_int (target_duration_seconds request) @ '' seconds'',
      ''- Include 3-5 scenes with visual suggestions'',
      ''- Total word count: ~'' @ str_int (py_int (target_words request)) @ '' words'',
      [],
      ''Format the output as JSON with:'',
      ''- title: Brief title for the video'',
      ''- scenes: Array of scenes, each with:'',
      ''  - duration: seconds'',
      ''  - visual: description of what to show'',
      ''  - voiceover: what to say'',
      ''- hashtags: 3-5 relevant hashtags'']"

definition load_model :: "os_env \<Rightarrow> ollama_client \<Rightarrow> string option \<Rightarrow> bool \<times> ollama_client" where
  "load_model env self name =
     (let self1 = (case name of
                     None \<Rightarrow> self
                   | Some n \<Rightarrow> if n = [] then self else self\<lparr>model_name := n\<rparr>)
      in case http_post env (base_url self1 @ ''/api/generate'')
                \<lparr>payload_model = model_name self1, payload_prompt = ''A'',
                 payload_stream = False, num_predict = 1,
                 temperature = None, top_p = None\<rparr> of
           Inl e \<Rightarrow> (False, self1\<lparr>is_model_loaded := False\<rparr>)
         | Inr response \<Rightarrow>
             if status response = 200 then (True, self1\<lparr>is_model_loaded := True\<rparr>)
             else (False, self1\<lparr>is_model_loaded := False\<rparr>))"

text \<open>The dictionary built in the \<open>except json.JSONDecodeError\<close> handler.\<close>

definition fallback_script :: "script_request \<Rightarrow> string \<Rightarrow> json" where
  "fallback_script request response_text =
     JObj [(''title'', JStr (''Video about '' @ topic request)),
           (''scenes'',
              JArr [JObj [(''duration'', JNum (of_int (target_duration_seconds request))),
                          (''visual'', JStr ''Generic visual''),
                          (''voiceover'', JStr response_text)]]),
           (''hashtags'', JArr [JStr ''#shorts'', JStr ''#video'', JStr ''#ai''])]"

text \<open>What \<open>generate_script\<close> does with the text of a 200 response: \<open>Some\<close> a
  dictionary, or \<open>None\<close> when control reaches the final \<open>return None\<close>.\<close>

definition script_from_response :: "os_env \<Rightarrow> script_request \<Rightarrow> string \<Rightarrow> json option" where
  "script_from_response env request response_text =
     (let json_start = py_find response_text (CHR ''{'')
      in if json_start \<noteq> - 1
         then (let json_end = py_rfind response_text (CHR ''}'') + 1
               in if json_end > json_start
                  then (case json_loads env (py_slice response_text json_start json_end) of
                          Some v \<Rightarrow> Some v
                        | None \<Rightarrow> Some (fallback_script request response_text))
                  else None)
         else None)"

text \<open>The JSON body \<open>generate_script\<close> posts to \<open>/api/generate\<close>.\<close>

definition script_payload :: "ollama_client \<Rightarrow> script_request \<Rightarrow> payload" where
  "script_payload self request =
     \<lparr>payload_model = model_name self,
      payload_prompt = ''system'' @ [CHR 0x0A] @ system_prompt @ [CHR 0x0A]
        @ ''user'' @ [CHR 0x0A] @ user_prompt request @ [CHR 0x0A] @ ''assistant'',
      payload_stream = False, num_predict = 1024,
      temperature = Some (7 / 10), top_p = Some (9 / 10)\<rparr>"

definition generate_script ::
  "os_env \<Rightarrow> ollama_client \<Rightarrow> script_request \<Rightarrow> (py_error + json option) \<times> ollama_client" where
  "generate_script env self request =
     (let self1 = (if \<not> is_model_loaded self then snd (load_model env self None) else self)
      in (case http_post env (base_url self1 @ ''/api/generate'') (script_payload self1 request) of
            Inl e \<Rightarrow> Inl e
          | Inr response \<Rightarrow>
              if status response = 200
              then Inr (script_from_response env request
                          (case response_field response of None \<Rightarrow> [] | Some t \<Rightarrow> t))
              else Inl (Exception (''Ollama API returned status '' @ str_int (status response))),
          self1))"

text \<open>Reading a script dictionary: a key's value, the scenes, the three fields.\<close>

fun json_get :: "json \<Rightarrow> string \<Rightarrow> json option" where
  "json_get (JObj kvs) k = map_of kvs k"
| "json_get v k = None"

definition scenes_of :: "json \<Rightarrow> json list option" where
  "scenes_of v = (case json_get v ''scenes'' of Some (JArr xs) \<Rightarrow> Some xs | _ \<Rightarrow> None)"

definition is_structured_script :: "json option \<Rightarrow> bool" where
  "is_structured_script r =
     (case r of
        None \<Rightarrow> False
      | Some v \<Rightarrow>
          (if json_get v ''title'' = None then False
           else if json_get v ''scenes'' = None then False
           else json_get v ''hashtags'' \<noteq> None))"

definition scene_count :: "json option \<Rightarrow> nat" where
  "scene_count r =
     (case r of
        None \<Rightarrow> 0
      | Some v \<Rightarrow> (case scenes_of v of None \<Rightarrow> 0 | Some xs \<Rightarrow> length xs))"

section \<open>audio_pipeline.py\<close>

record voice_settings =
  voice_type :: string
  voice_id :: string
  reference_audio_path :: "string option"
  speed :: pyfloat
  pitch :: pyfloat

record audio_request =
  request_text :: string
  request_voice_settings :: voice_settings

text \<open>A file written by \<open>sf.write(path, data, samplerate)\<close>, and the files written so far.\<close>

record wav_file =
  wav_samples :: "rat list"
  wav_rate :: nat

type_synonym files = "string \<Rightarrow> wav_file option"

text \<open>\<open>np.zeros(n, dtype=np.float32)\<close>: a negative size raises \<open>ValueError\<close>; a size the
  machine cannot allocate raises what the environment says (\<open>MemoryError\<close>, or
  \<open>ValueError\<close> beyond the index type).\<close>

definition np_zeros :: "os_env \<Rightarrow> int \<Rightarrow> py_error + rat list" where
  "np_zeros env n =
     (if n < 0 then Inl (ValueError ''negative dimensions are not allowed'')
      else (case np_zeros_error env (nat n) of
              Some e \<Rightarrow> Inl e
            | None \<Rightarrow> Inr (replicate (nat n) 0)))"

text \<open>\<open>sf.write(path, data, samplerate)\<close>: it raises what the environment says, or
  writes the file. A failed write is taken to leave the files as they were.\<close>

definition sf_write :: "os_env \<Rightarrow> files \<Rightarrow> string \<Rightarrow> rat list \<Rightarrow> nat \<Rightarrow> py_error + files" where
  "sf_write env fs path audio_data sample_rate =
     (case sf_write_error env path of
        Some e \<Rightarrow> Inl e
      | None \<Rightarrow> Inr (fs(path \<mapsto> \<lparr>wav_samples = audio_data, wav_rate = sample_rate\<rparr>)))"

text \<open>\<open>max(1, len(text.split()) / 150 * settings.speed)\<close>, the duration both voice
  functions compute: a true division of integers, a float product, and \<open>max\<close>.\<close>

definition placeholder_duration :: "os_env \<Rightarrow> string \<Rightarrow> voice_settings \<Rightarrow> py_num" where
  "placeholder_duration env txt settings =
     py_max_one
       (float_mul (float_round env)
          (float_round env (of_nat (length (py_split txt)) / 150)) (speed settings))"

definition generate_preset_voice ::
  "os_env \<Rightarrow> files \<Rightarrow> string \<Rightarrow> string \<Rightarrow> voice_settings \<Rightarrow> py_error + string \<times> files" where
  "generate_preset_voice env fs txt output_path settings =
     (let sample_rate = 22050;
          duration = placeholder_duration env txt settings
      in case py_int_of (int_times (float_round env) (int sample_rate) duration) of
           Inl e \<Rightarrow> Inl e
         | Inr n \<Rightarrow>
             (case np_zeros env n of
                Inl e \<Rightarrow> Inl e
              | Inr audio_data \<Rightarrow>
                  (case sf_write env fs output_path audio_data sample_rate of
                     Inl e \<Rightarrow> Inl e
                   | Inr fs' \<Rightarrow> Inr (output_path, fs'))))"

text \<open>\<open>not settings.reference_audio_path or not os.path.exists(...)\<close>.\<close>

definition reference_missing :: "os_env \<Rightarrow> voice_settings \<Rightarrow> bool" where
  "reference_missing env settings =
     (case reference_audio_path settings of
        None \<Rightarrow> True
      | Some p \<Rightarrow> if p = [] then True else \<not> path_exists env p)"

definition generate_custom_voice ::
  "os_env \<Rightarrow> files \<Rightarrow> string \<Rightarrow> string \<Rightarrow> voice_settings \<Rightarrow> py_error + string \<times> files" where
  "generate_custom_voice env fs txt output_path settings =
     (if reference_missing env settings
      then Inl (ValueError ''Custom voice requires reference audio file (10-60s)'')
      else (let sample_rate = 22050;
                duration = placeholder_duration env txt settings
            in case py_int_of (int_times (float_round env) (int sample_rate) duration) of
                 Inl e \<Rightarrow> Inl e
               | Inr n \<Rightarrow>
                   (case np_zeros env n of
                      Inl e \<Rightarrow> Inl e
                    | Inr audio_data \<Rightarrow>
                        (case sf_write env fs output_path audio_data sample_rate of
                           Inl e \<Rightarrow> Inl e
                         | Inr fs' \<Rightarrow> Inr (output_path, fs')))))"

text \<open>The argument vectors \<open>_normalize_loudness\<close> builds; \<open>cmd2\<close> and
  \<open>cmd_fallback\<close> are the same list in the source. \<open>target_lufs\<close> is the integer
  the only caller passes (\<open>-16\<close>), printed into the filter by the f-string.\<close>

definition loudnorm_filter :: "int \<Rightarrow> string" where
  "loudnorm_filter target_lufs =
     ''loudnorm=I='' @ str_int target_lufs @ '':TP=-1.5:LRA=11:print_format=json''"

definition loudnorm_cmd :: "string \<Rightarrow> string \<Rightarrow> int \<Rightarrow> string list" where
  "loudnorm_cmd audio_path output_path target_lufs =
     [''ffmpeg'', ''-y'', ''-i'', audio_path,
      ''-af'', loudnorm_filter target_lufs,
      ''-af'', ''volume=1.0'',
      output_path]"

definition volume_cmd :: "string \<Rightarrow> string \<Rightarrow> string list" where
  "volume_cmd audio_path output_path =
     [''ffmpeg'', ''-y'', ''-i'', audio_path, ''-af'', ''volume=1.0'', output_path]"

text \<open>\<open>_normalize_loudness\<close>: the commands it runs, in order, and the path it returns.
  An exception of the second run on the success path is swallowed by the inner
  \<open>except: pass\<close>; any other exception reaches the outer handler, which returns
  \<open>audio_path\<close>.\<close>

definition normalize_loudness :: "os_env \<Rightarrow> string \<Rightarrow> int \<Rightarrow> string list list \<times> string" where
  "normalize_loudness env audio_path target_lufs =
     (let output_path = py_replace ''.wav'' ''_normalized.wav'' audio_path;
          cmd = loudnorm_cmd audio_path output_path target_lufs
      in case subprocess_run env cmd of
           Inl e \<Rightarrow> ([cmd], audio_path)
         | Inr result \<Rightarrow>
             if returncode result = 0
             then (if py_in ''input_i'' (stderr result)
                   then ([cmd, volume_cmd audio_path output_path], output_path)
                   else ([cmd], output_path))
             else (case subprocess_run env (volume_cmd audio_path output_path) of
                     Inl e \<Rightarrow> ([cmd, volume_cmd audio_path output_path], audio_path)
                   | Inr r \<Rightarrow> ([cmd, volume_cmd audio_path output_path], output_path)))"

definition voiceover_path :: "os_env \<Rightarrow> string \<Rightarrow> audio_request \<Rightarrow> string" where
  "voiceover_path env audio_dir request =
     os_path_join audio_dir
       (''voiceover_'' @ str_int (\<bar>py_hash env (request_text request)\<bar> mod 10000) @ ''.wav'')"

text \<open>The branch of \<open>generate_voiceover\<close> on \<open>voice_type\<close>: the voice step.\<close>

definition generate_voice ::
  "os_env \<Rightarrow> files \<Rightarrow> audio_request \<Rightarrow> string \<Rightarrow> py_error + string \<times> files" where
  "generate_voice env fs request output_path =
     (if voice_type (request_voice_settings request) = ''preset''
      then generate_preset_voice env fs (request_text request) output_path
             (request_voice_settings request)
      else generate_custom_voice env fs (request_text request) output_path
             (request_voice_settings request))"

definition generate_voiceover ::
  "os_env \<Rightarrow> string \<Rightarrow> files \<Rightarrow> audio_request \<Rightarrow> py_error + string \<times> files" where
  "generate_voiceover env audio_dir fs request =
     (let output_path = voiceover_path env audio_dir request
      in case generate_voice env fs request output_path of
           Inl e \<Rightarrow> Inl e
         | Inr (audio_path, fs') \<Rightarrow> Inr (snd (normalize_loudness env audio_path (- 16)), fs'))"

text \<open>The argument of each \<open>-af\<close> option of an FFmpeg argument vector, in order
  (\<open>-i\<close> takes the next argument as its value). FFmpeg applies the last \<open>-af\<close> given
  for an output.\<close>

fun audio_filters :: "string list \<Rightarrow> string list" where
  "audio_filters (k # v # rest) =
     (if k = ''-af'' then v # audio_filters rest
      else if k = ''-i'' then audio_filters rest
      else audio_filters (v # rest))"
| "audio_filters rest = []"

section \<open>video_engine.py\<close>

text \<open>A clip is a dictionary read with \<open>clip.get("path", default)\<close>; a missing key is
  \<open>None\<close>.\<close>

record video_clip =
  clip_path :: "string option"
  clip_duration :: "rat option"

record video_engine =
  video_dir :: string
  output_dir :: string

record preset =
  preset_resolution :: string
  preset_fps :: int
  preset_codec :: string
  preset_bitrate :: string

text \<open>The settings object of \<open>export_video\<close>, read by attribute. \<open>codec = None\<close>
  is an object without the attribute (reading it raises \<open>AttributeError\<close>); the other
  fields are \<open>None\<close> or a value.\<close>

record export_settings =
  platform :: string
  resolution :: "string option"
  fps :: "int option"
  codec :: "string option option"
  bit_rate :: "string option"

definition platform_presets :: "(string \<times> preset) list" where
  "platform_presets =
     [(''youtube-shorts'',
         \<lparr>preset_resolution = ''1080x1920'', preset_fps = 30,
          preset_codec = ''h.264'', preset_bitrate = ''8M''\<rparr>),
      (''tiktok'',
         \<lparr>preset_resolution = ''1080x1920'', preset_fps = 30,
          preset_codec = ''h.264'', preset_bitrate = ''8M''\<rparr>),
      (''instagram-reels'',
         \<lparr>preset_resolution = ''1080x1920'', preset_fps = 30,
          preset_codec = ''h.264'', preset_bitrate = ''8M''\<rparr>)]"

text \<open>\<open>platform_presets.get(platform, {}).get(key, default)\<close>.\<close>

definition preset_get :: "string \<Rightarrow> (preset \<Rightarrow> 'a) \<Rightarrow> 'a \<Rightarrow> 'a" where
  "preset_get p field d = (case map_of platform_presets p of None \<Rightarrow> d | Some v \<Rightarrow> field v)"

definition check_nvenc :: "os_env \<Rightarrow> bool" where
  "check_nvenc env =
     (case subprocess_run env [''ffmpeg'', ''-hide_banner'', ''-codecs''] of
        Inl e \<Rightarrow> False
      | Inr result \<Rightarrow> py_in ''h264_nvenc'' (stdout result))"

text \<open>The paths of the clips that exist, in order (the first loop of
  \<open>_build_ffmpeg_command\<close>).\<close>

definition video_files :: "os_env \<Rightarrow> video_clip list \<Rightarrow> string list" where
  "video_files env video_clips =
     filter (path_exists env)
       (map (\<lambda>(i, clip). case clip_path clip of
                             None \<Rightarrow> ''video_clip_'' @ str_nat i @ ''.mp4''
                           | Some p \<Rightarrow> p)
            (enumerate 0 video_clips))"

definition filter_parts :: "os_env \<Rightarrow> string \<Rightarrow> int \<Rightarrow> string list \<Rightarrow> string option \<Rightarrow> string list" where
  "filter_parts env res frames vfiles captions_path =
     (if vfiles \<noteq> []
      then map (\<lambda>i. ''['' @ str_nat i @ '':v]scale='' @ res
                       @ '':force_original_aspect_ratio=decrease,pad='' @ res
                       @ '':(ow-iw)/2:(oh-ih)/2,setsar=1[f'' @ str_nat i @ '']'')
               [0..<length vfiles]
           @ [concat (map (\<lambda>i. ''[f'' @ str_nat i @ '']'') [0..<length vfiles])
                @ ''concat=n='' @ str_nat (length vfiles) @ '':v=1:a=0[outv]'']
      else [''color=c=black:s='' @ res @ '':d=10,fps='' @ str_int frames @ ''[outv]''])
     @ (case captions_path of
          None \<Rightarrow> []
        | Some c \<Rightarrow>
            if c \<noteq> [] \<and> path_exists env c
            then [''[outv]subtitles='' @ c @ '':force_style='' @ [CHR 0x27]
                    @ ''Fontsize=24,PrimaryColour=&H00FFFF,Outline=1,Shadow=1,MarginV=100''
                    @ [CHR 0x27] @ ''[outsub]'']
            else [])"

definition build_ffmpeg_command ::
  "os_env \<Rightarrow> string \<Rightarrow> int \<Rightarrow> string \<Rightarrow> string \<Rightarrow> video_clip list \<Rightarrow> string
     \<Rightarrow> string option \<Rightarrow> string list" where
  "build_ffmpeg_command env res frames cdc bitrate video_clips audio_path captions_path =
     (let vfiles = video_files env video_clips;
          inputs = concat (map (\<lambda>p. [''-i'', p]) vfiles) @ [''-i'', audio_path];
          audio_input_idx = length vfiles;
          filter_complex = py_join '';'' (filter_parts env res frames vfiles captions_path)
      in [''ffmpeg'', ''-y''] @ inputs @
         [''-filter_complex'', filter_complex,
          ''-map'', (case captions_path of
                       None \<Rightarrow> ''[outv]''
                     | Some c \<Rightarrow> if c = [] then ''[outv]'' else ''[outsub]''),
          ''-map'', str_nat audio_input_idx @ '':a'',
          ''-c:v'', (if check_nvenc env then ''h264_nvenc'' else ''h264''),
          ''-b:v'', bitrate,
          ''-maxrate'', bitrate,
          ''-bufsize'', ''2M'',
          ''-c:a'', ''aac'',
          ''-b:a'', ''192k'',
          ''-vf'', ''fps='' @ str_int frames,
          ''-shortest'',
          ''-profile:v'', ''main'',
          ''-level'', ''4.2'',
          ''-movflags'', ''+faststart'',
          ''output.mp4''])"

text \<open>The command \<open>export_video\<close> builds and runs, and the path it returns.\<close>

definition export_command ::
  "os_env \<Rightarrow> export_settings \<Rightarrow> string option \<Rightarrow> video_clip list \<Rightarrow> string \<Rightarrow> string option
     \<Rightarrow> string list" where
  "export_command env settings cdc video_clips audio_path captions_path =
     build_ffmpeg_command env
       (or_str (resolution settings) (preset_get (platform settings) preset_resolution ''1080x1920''))
       (or_int (fps settings) (preset_get (platform settings) preset_fps 30))
       (or_str cdc (preset_get (platform settings) preset_codec ''h.264''))
       (or_str (bit_rate settings) (preset_get (platform settings) preset_bitrate ''8M''))
       video_clips audio_path captions_path"

definition export_output_path :: "os_env \<Rightarrow> video_engine \<Rightarrow> string" where
  "export_output_path env self =
     os_path_join (output_dir self) (''short_'' @ now_strftime env @ ''.mp4'')"

definition export_video ::
  "os_env \<Rightarrow> video_engine \<Rightarrow> export_settings \<Rightarrow> video_clip list \<Rightarrow> string \<Rightarrow> string option
     \<Rightarrow> py_error + string" where
  "export_video env self settings video_clips audio_path captions_path =
     (case codec settings of
        None \<Rightarrow> Inl (AttributeError ''object has no attribute codec'')
      | Some cdc \<Rightarrow>
          (let output_path = export_output_path env self;
               cmd = export_command env settings cdc video_clips audio_path captions_path
           in case subprocess_run env cmd of
                Inl e \<Rightarrow> Inl e
              | Inr result \<Rightarrow>
                  if returncode result = 0 then Inr output_path
                  else Inl (Exception (''FFmpeg failed: '' @ stderr result))))"

section \<open>main.py\<close>

record app_state =
  state_ollama_client :: "ollama_client option"
  state_audio_pipeline :: "string option"
  current_vram_usage :: int

datatype audio_response =
    AudioSuccess string pyfloat
  | AudioFailure string string

text \<open>\<open>len(request.text.split()) / 150 * request.voice_settings.speed\<close>, the
  \<open>duration_seconds\<close> of the answer.\<close>

definition reported_duration :: "os_env \<Rightarrow> audio_request \<Rightarrow> pyfloat" where
  "reported_duration env request =
     float_mul (float_round env)
       (float_round env (of_nat (length (py_split (request_text request))) / 150))
       (speed (request_voice_settings request))"

text \<open>The directory of the pipeline the endpoint uses: the one in the state, or
  \<open>assets/audio\<close> of a fresh \<open>AudioPipeline()\<close>.\<close>

definition pipeline_dir :: "app_state \<Rightarrow> string" where
  "pipeline_dir app =
     (case state_audio_pipeline app of None \<Rightarrow> ''assets/audio'' | Some d \<Rightarrow> d)"

text \<open>The \<open>/audio/generate\<close> endpoint. \<open>state_audio_pipeline\<close> holds the pipeline's
  \<open>audio_dir\<close>; \<open>AudioPipeline()\<close> sets it to \<open>assets/audio\<close>. \<open>AudioSuccess\<close> carries
  \<open>audio_path\<close> and \<open>duration_seconds\<close>, \<open>AudioFailure\<close> carries \<open>error\<close> and
  \<open>recommendation\<close>.\<close>

definition generate_audio ::
  "os_env \<Rightarrow> app_state \<Rightarrow> files \<Rightarrow> audio_request \<Rightarrow> audio_response \<times> app_state \<times> files" where
  "generate_audio env app fs request =
     (let app1 = (if current_vram_usage app > 8
                  then (case state_ollama_client app of
                          None \<Rightarrow> app
                        | Some c \<Rightarrow> app\<lparr>state_ollama_client := Some (c\<lparr>is_model_loaded := False\<rparr>)\<rparr>)
                  else app);
          app2 = (case state_audio_pipeline app1 of
                    None \<Rightarrow> app1\<lparr>state_audio_pipeline := Some ''assets/audio''\<rparr>
                  | Some d \<Rightarrow> app1)
      in case generate_voiceover env (pipeline_dir app2) fs request of
           Inl e \<Rightarrow>
             (AudioFailure (str_error e)
                ''Try using preset voices instead of custom voice cloning'', app2, fs)
         | Inr (audio_path, fs') \<Rightarrow>
             (AudioSuccess audio_path (reported_duration env request), app2, fs'))"

section \<open>ResourceBudget\<close>

text \<open>Modelled from the spec: the ResourceBudget component of section 4.1, which none
  of the source files implements (the source only holds the constants
  \<open>vram_available\<close> and \<open>current_vram_usage\<close>). A lease reserves an amount of memory
  for a stage. The advisory \<open>exclusive\<close> mode and the cancellation of waiters do not
  change the memory counters and are left out.\<close>

record lease =
  lease_id :: nat
  holder :: string
  reserved :: nat

text \<open>Modelled from the spec: BudgetState of section 3: the total accelerator memory
  fixed at startup, the active leases and the FIFO queue of waiters.\<close>

record budget_state =
  total :: nat
  leased :: "lease list"
  waiters :: "lease list"
  next_id :: nat

text \<open>Modelled from the spec: the state after the startup probe found \<open>capacity\<close>.\<close>

definition budget_init :: "nat \<Rightarrow> budget_state" where
  "budget_init capacity = \<lparr>total = capacity, leased = [], waiters = [], next_id = 0\<rparr>"

text \<open>Modelled from the spec: the memory currently leased.\<close>

definition in_use :: "lease list \<Rightarrow> nat" where
  "in_use ls = sum_list (map reserved ls)"

text \<open>Modelled from the spec: \<open>available() -> memory\<close>, the total less what is leased.\<close>

definition available :: "budget_state \<Rightarrow> int" where
  "available st = int (total st) - int (in_use (leased st))"

datatype acquire_result = Granted lease | Queued lease | ResourceUnavailable

text \<open>Modelled from the spec: \<open>acquire\<close>. A request over the ceiling fails at once and
  is never queued; one that fits the headroom is granted; one that fits the ceiling
  but not the headroom joins the end of the queue.\<close>

definition acquire :: "budget_state \<Rightarrow> string \<Rightarrow> nat \<Rightarrow> acquire_result \<times> budget_state" where
  "acquire st stage_name estimated_memory =
     (let l = \<lparr>lease_id = next_id st, holder = stage_name, reserved = estimated_memory\<rparr>
      in if estimated_memory > total st then (ResourceUnavailable, st)
         else if int estimated_memory \<le> available st
         then (Granted l, st\<lparr>leased := leased st @ [l], next_id := Suc (next_id st)\<rparr>)
         else (Queued l, st\<lparr>waiters := waiters st @ [l], next_id := Suc (next_id st)\<rparr>))"

text \<open>Modelled from the spec: waiters are granted in FIFO order as memory is released:
  the head of the queue is granted while it fits.\<close>

fun grant_waiters :: "nat \<Rightarrow> lease list \<Rightarrow> lease list \<Rightarrow> lease list \<times> lease list" where
  "grant_waiters cap ls [] = (ls, [])"
| "grant_waiters cap ls (w # ws) =
     (if in_use ls + reserved w \<le> cap then grant_waiters cap (ls @ [w]) ws
      else (ls, w # ws))"

text \<open>Modelled from the spec: \<open>release\<close>, idempotent: releasing a lease that is not
  active changes nothing.\<close>

definition release :: "budget_state \<Rightarrow> nat \<Rightarrow> budget_state" where
  "release st lid =
     (if lid \<in> set (map lease_id (leased st))
      then (let kept = filter (\<lambda>l. lease_id l \<noteq> lid) (leased st);
                (ls, ws) = grant_waiters (total st) kept (waiters st)
            in st\<lparr>leased := ls, waiters := ws\<rparr>)
      else st)"

datatype budget_op = Acquire string nat | Release nat

text \<open>Modelled from the spec: a sequence of acquire and release calls, from the left.\<close>

fun budget_step :: "budget_state \<Rightarrow> budget_op \<Rightarrow> budget_state" where
  "budget_step st (Acquire stage_name estimated_memory) = snd (acquire st stage_name estimated_memory)"
| "budget_step st (Release lid) = release st lid"

definition budget_run :: "budget_state \<Rightarrow> budget_op list \<Rightarrow> budget_state" where
  "budget_run st ops = foldl budget_step st ops"

section \<open>Example inputs\<close>

text \<open>Environments for the concrete runs below. FFmpeg either cannot be started
  (\<open>subprocess.run\<close> raises), or exits with code 0, printing the loudnorm measurement on
  standard error and listing \<open>h264_nvenc\<close> among its codecs, or exits with code 0
  without that encoder, or exits with code 1, or exits with code 1 on the first
  command and cannot be started for the second. The language-model backend answers
  every POST with status 200 and the given text. \<open>json_loads\<close> agrees with
  \<open>json.loads\<close> on the texts the runs pass to it: \<open>{}\<close> is the empty dictionary and
  \<open>{oops}\<close> is rejected. Floats are not rounded: the runs compute with 1 and 22050,
  which are binary64 numbers, and the reported durations \<open>1 / 75\<close> and \<open>56 / 75\<close> stand
  for the floats nearest to them. Every array can be allocated and every file
  written.\<close>

definition ffmpeg_missing :: "string list \<Rightarrow> py_error + completed_process" where
  "ffmpeg_missing cmd = Inl (OSError ''No such file or directory: ffmpeg'')"

definition ffmpeg_ok :: "string list \<Rightarrow> py_error + completed_process" where
  "ffmpeg_ok cmd = Inr \<lparr>returncode = 0, stdout = '' DEV.LS h264 (encoders: h264_nvenc )'',
                         stderr = ''{ input_i : -70.0 }''\<rparr>"


definition ffmpeg_failing :: "string list \<Rightarrow> py_error + completed_process" where
  "ffmpeg_failing cmd = Inr \<lparr>returncode = 1, stdout = [], stderr = ''Conversion failed!''\<rparr>"

definition ffmpeg_vanishing :: "string list \<Rightarrow> py_error + completed_process" where
  "ffmpeg_vanishing cmd =
     (if audio_filters cmd = [''volume=1.0'']
      then Inl (OSError ''No such file or directory: ffmpeg'')
      else Inr \<lparr>returncode = 1, stdout = [], stderr = ''Conversion failed!''\<rparr>)"

definition example_env ::
  "(string list \<Rightarrow> py_error + completed_process) \<Rightarrow> string \<Rightarrow> os_env" where
  "example_env run reply =
     \<lparr>path_exists = (\<lambda>p. False),
      subprocess_run = run,
      py_hash = (\<lambda>s. 42),
      now_strftime = ''20240101_120000'',
      http_post = (\<lambda>url body. Inr \<lparr>status = 200, response_field = Some reply\<rparr>),
      json_loads = map_of [(''{}'', JObj [])],
      float_round = Finite,
      np_zeros_error = (\<lambda>n. None),
      sf_write_error = (\<lambda>p. None)\<rparr>"

text \<open>The same with a reference clip on disk.\<close>

definition reference_env :: os_env where
  "reference_env = (example_env ffmpeg_ok [])\<lparr>path_exists := (\<lambda>p. p = ''voices/me.wav'')\<rparr>"

definition preset_settings :: voice_settings where
  "preset_settings =
     \<lparr>voice_type = ''preset'', voice_id = ''default'', reference_audio_path = None,
      speed = Finite 1, pitch = Finite 1\<rparr>"

definition custom_settings :: voice_settings where
  "custom_settings =
     \<lparr>voice_type = ''custom'', voice_id = ''default'', reference_audio_path = None,
      speed = Finite 1, pitch = Finite 1\<rparr>"

definition custom_with_reference :: voice_settings where
  "custom_with_reference =
     \<lparr>voice_type = ''custom'', voice_id = ''default'',
      reference_audio_path = Some ''voices/me.wav'', speed = Finite 1, pitch = Finite 1\<rparr>"

text \<open>A rounding that overflows as binary64 does, a result of magnitude
  \<open>2 ^ 1024 - 2 ^ 970\<close> or more becomes an infinity, and is exact below; with it a
  preset request of 300 words at speed \<open>10 ^ 308\<close>.\<close>

definition binary64_round :: "rat \<Rightarrow> pyfloat" where
  "binary64_round r =
     (if 2 ^ 1024 - 2 ^ 970 \<le> r then PosInf
      else if r \<le> - (2 ^ 1024 - 2 ^ 970) then NegInf
      else Finite r)"

definition overflow_env :: os_env where
  "overflow_env = (example_env ffmpeg_ok [])\<lparr>float_round := binary64_round\<rparr>"

definition fast_settings :: voice_settings where
  "fast_settings =
     \<lparr>voice_type = ''preset'', voice_id = ''default'', reference_audio_path = None,
      speed = Finite (10 ^ 308), pitch = Finite 1\<rparr>"

definition script_300_words :: string where
  "script_300_words = concat (replicate 300 ''habit '')"

definition app_start :: app_state where
  "app_start =
     \<lparr>state_ollama_client = None, state_audio_pipeline = None, current_vram_usage = 0\<rparr>"

definition daily_habits :: script_request where
  "daily_habits =
     \<lparr>topic = ''daily habits'', target_duration_seconds = 45,
      tone = ''engaging'', style = ''conversational''\<rparr>"

definition client_start :: ollama_client where
  "client_start =
     \<lparr>base_url = ''http://localhost:11434'', model_name = ''llama3.2:latest'',
      context_size = 4096, is_model_loaded = False\<rparr>"

text \<open>A script of 112 words, the word count the prompt asks for at 45 seconds.\<close>

definition script_112_words :: string where
  "script_112_words = concat (replicate 112 ''habit '')"

text \<open>The settings and engine of \<open>test_video_engine\<close>.\<close>

definition test_settings :: export_settings where
  "test_settings =
     \<lparr>platform = ''youtube-shorts'', resolution = Some ''1080x1920'', fps = Some 30,
      codec = Some (Some ''h.264''), bit_rate = Some ''8M''\<rparr>"

definition test_engine :: video_engine where
  "test_engine = \<lparr>video_dir = ''assets/video'', output_dir = ''output''\<rparr>"

text \<open>A duration is within ten percent of a target.\<close>

definition within_ten_percent :: "rat \<Rightarrow> rat \<Rightarrow> bool" where
  "within_ten_percent d target = (\<bar>d - target\<bar> \<le> target / 10)"

section \<open>Derived notions used in the statements\<close>

text \<open>\<open>int(sample_rate * duration)\<close>, the number of samples both voice functions ask
  \<open>np.zeros\<close> for.\<close>

definition placeholder_samples :: "os_env \<Rightarrow> string \<Rightarrow> voice_settings \<Rightarrow> py_error + int" where
  "placeholder_samples env txt settings =
     py_int_of (int_times (float_round env) 22050 (placeholder_duration env txt settings))"

text \<open>A file of \<open>n\<close> zero-valued samples at 22050 Hz.\<close>

definition silent_wav :: "nat \<Rightarrow> wav_file" where
  "silent_wav n = \<lparr>wav_samples = replicate n 0, wav_rate = 22050\<rparr>"

text \<open>What both voice functions do once the reference check has passed.\<close>

definition write_placeholder ::
  "os_env \<Rightarrow> files \<Rightarrow> string \<Rightarrow> string \<Rightarrow> voice_settings \<Rightarrow> py_error + string \<times> files" where
  "write_placeholder env fs txt output_path settings =
     (case placeholder_samples env txt settings of
        Inl e \<Rightarrow> Inl e
      | Inr n \<Rightarrow>
          if n < 0 then Inl (ValueError ''negative dimensions are not allowed'')
          else (case np_zeros_error env (nat n) of
                  Some e \<Rightarrow> Inl e
                | None \<Rightarrow>
                    (case sf_write_error env output_path of
                       Some e \<Rightarrow> Inl e
                     | None \<Rightarrow> Inr (output_path, fs(output_path \<mapsto> silent_wav (nat n))))))"

text \<open>The output path \<open>_normalize_loudness\<close> derives from the audio path.\<close>

definition normalized_path :: "string \<Rightarrow> string" where
  "normalized_path audio_path = py_replace ''.wav'' ''_normalized.wav'' audio_path"

text \<open>Modelled from the spec: the invariant of the budget, the leased memory never
  exceeds the total.\<close>

definition budget_ok :: "budget_state \<Rightarrow> bool" where
  "budget_ok st = (in_use (leased st) \<le> total st)"

section \<open>Lemmas about strings\<close>

text \<open>\<open>py_in\<close> is the test for a contiguous occurrence.\<close>

lemma py_in_iff: "py_in sub s = (\<exists>pre post. s = pre @ sub @ post)"
proof (induction s)
  case Nil
  then show ?case by simp
next
  case (Cons c cs)
  show ?case
  proof
    assume "py_in sub (c # cs)"
    then consider "take (length sub) (c # cs) = sub" | "py_in sub cs"
      by (auto split: if_splits)
    then show "\<exists>pre post. c # cs = pre @ sub @ post"
    proof cases
      case 1
      then have "c # cs = [] @ sub @ drop (length sub) (c # cs)"
        by (metis append_Nil append_take_drop_id)
      then show ?thesis by blast
    next
      case 2
      then obtain pre post where "cs = pre @ sub @ post" using Cons.IH by blast
      then have "c # cs = (c # pre) @ sub @ post" by simp
      then show ?thesis by blast
    qed
  next
    assume "\<exists>pre post. c # cs = pre @ sub @ post"
    then obtain pre post where e: "c # cs = pre @ sub @ post" by blast
    show "py_in sub (c # cs)"
    proof (cases pre)
      case Nil
      then have "take (length sub) (c # cs) = sub" using e by simp
      then show ?thesis by simp
    next
      case (Cons a pre')
      then have "cs = pre' @ sub @ post" using e by simp
      then have "py_in sub cs" using Cons.IH by blast
      then show ?thesis by simp
    qed
  qed
qed

section \<open>Lemmas about the audio pipeline\<close>

lemma audio_filters_loudnorm_cmd:
  "audio_filters (loudnorm_cmd p out t) = [loudnorm_filter t, ''volume=1.0'']"
  by (simp add: loudnorm_cmd_def)

lemma audio_filters_volume_cmd:
  "audio_filters (volume_cmd p out) = [''volume=1.0'']"
  by (simp add: volume_cmd_def)

lemma normalize_loudness_cmds:
  "fst (normalize_loudness env p t) = [loudnorm_cmd p (py_replace ''.wav'' ''_normalized.wav'' p) t]
   \<or> fst (normalize_loudness env p t) =
        [loudnorm_cmd p (py_replace ''.wav'' ''_normalized.wav'' p) t,
         volume_cmd p (py_replace ''.wav'' ''_normalized.wav'' p)]"
  by (simp add: normalize_loudness_def Let_def split: sum.splits)

text \<open>The path \<open>_normalize_loudness\<close> returns, by what FFmpeg does.\<close>

lemma normalize_loudness_path:
  "snd (normalize_loudness env p t) =
     (case subprocess_run env (loudnorm_cmd p (normalized_path p) t) of
        Inl e \<Rightarrow> p
      | Inr r \<Rightarrow>
          if returncode r = 0 then normalized_path p
          else if isl (subprocess_run env (volume_cmd p (normalized_path p))) then p
          else normalized_path p)"
  by (auto simp: normalize_loudness_def normalized_path_def Let_def split: sum.splits)

lemma generate_preset_voice_eq:
  "generate_preset_voice env fs tx out st = write_placeholder env fs tx out st"
  by (auto simp: generate_preset_voice_def write_placeholder_def placeholder_samples_def
      np_zeros_def sf_write_def silent_wav_def Let_def split: sum.splits option.splits)

lemma generate_custom_voice_eq:
  "generate_custom_voice env fs tx out st =
     (if reference_missing env st
      then Inl (ValueError ''Custom voice requires reference audio file (10-60s)'')
      else write_placeholder env fs tx out st)"
  by (auto simp: generate_custom_voice_def write_placeholder_def placeholder_samples_def
      np_zeros_def sf_write_def silent_wav_def Let_def split: sum.splits option.splits)

lemma generate_voice_eq:
  "generate_voice env fs req out =
     (if voice_type (request_voice_settings req) \<noteq> ''preset''
         \<and> reference_missing env (request_voice_settings req)
      then Inl (ValueError ''Custom voice requires reference audio file (10-60s)'')
      else write_placeholder env fs (request_text req) out (request_voice_settings req))"
  by (simp add: generate_voice_def generate_preset_voice_eq generate_custom_voice_eq)

lemma write_placeholder_Inr:
  "write_placeholder env fs tx out st = Inr (p, fs') \<Longrightarrow>
     p = out \<and> (\<exists>n. fs' = fs(out \<mapsto> silent_wav n))"
  by (auto simp: write_placeholder_def split: sum.splits option.splits if_splits)

lemma write_placeholder_ok:
  "placeholder_samples env tx st = Inr n \<Longrightarrow> 0 \<le> n \<Longrightarrow> np_zeros_error env (nat n) = None \<Longrightarrow>
   sf_write_error env out = None \<Longrightarrow>
     write_placeholder env fs tx out st = Inr (out, fs(out \<mapsto> silent_wav (nat n)))"
  by (simp add: write_placeholder_def)

lemma pipeline_dir_update [simp]:
  "pipeline_dir (app\<lparr>state_ollama_client := c\<rparr>) = pipeline_dir app"
  by (simp add: pipeline_dir_def)

lemma generate_audio_eq:
  "fst (generate_audio env app fs req) =
     (case generate_voiceover env (pipeline_dir app) fs req of
        Inl e \<Rightarrow> AudioFailure (str_error e) ''Try using preset voices instead of custom voice cloning''
      | Inr (p, fs') \<Rightarrow> AudioSuccess p (reported_duration env req))"
  by (auto simp: generate_audio_def Let_def pipeline_dir_def split: option.splits sum.splits)

lemma generate_audio_files:
  "snd (snd (generate_audio env app fs req)) =
     (case generate_voiceover env (pipeline_dir app) fs req of
        Inl e \<Rightarrow> fs | Inr (p, fs') \<Rightarrow> fs')"
  by (auto simp: generate_audio_def Let_def pipeline_dir_def split: option.splits sum.splits)

lemma example_voiceover_path:
  "voiceover_path (example_env run reply) ''assets/audio''
       \<lparr>request_text = tx, request_voice_settings = st\<rparr> = ''assets/audio/voiceover_42.wav''"
  by (simp add: voiceover_path_def example_env_def os_path_join_def str_int_def str_nat.simps)

lemma replace_example:
  "normalized_path ''assets/audio/voiceover_42.wav'' = ''assets/audio/voiceover_42_normalized.wav''"
  by (simp add: normalized_path_def py_replace.simps)

lemma hello_world_words: "length (py_split ''hello world'') = 2"
  by (simp add: py_split_def is_space_def)

lemma example_hello_samples:
  "speed st = Finite 1 \<Longrightarrow> placeholder_samples (example_env run reply) ''hello world'' st = Inr 22050"
  by (simp add: placeholder_samples_def placeholder_duration_def hello_world_words example_env_def
      py_max_one_def)

lemma example_hello_voice:
  "speed st = Finite 1 \<Longrightarrow>
   write_placeholder (example_env run reply) fs ''hello world'' out st
     = Inr (out, fs(out \<mapsto> silent_wav 22050))"
  using write_placeholder_ok [of "example_env run reply" "''hello world''" st 22050 out fs]
  by (simp add: example_hello_samples) (simp add: example_env_def)

lemma example_hello_duration:
  "reported_duration (example_env run reply)
     \<lparr>request_text = ''hello world'', request_voice_settings = preset_settings\<rparr> = Finite (1 / 75)"
  by (simp add: reported_duration_def hello_world_words example_env_def preset_settings_def)

lemma generate_voiceover_eq:
  "generate_voiceover env dir fs req =
     (case generate_voice env fs req (voiceover_path env dir req) of
        Inl e \<Rightarrow> Inl e
      | Inr (ap, fs') \<Rightarrow> Inr (snd (normalize_loudness env ap (- 16)), fs'))"
  by (simp add: generate_voiceover_def Let_def)

lemma preset_voice_example:
  "generate_voice (example_env run reply) Map.empty
     \<lparr>request_text = ''hello world'', request_voice_settings = preset_settings\<rparr>
     ''assets/audio/voiceover_42.wav''
   = Inr (''assets/audio/voiceover_42.wav'',
          [''assets/audio/voiceover_42.wav'' \<mapsto> silent_wav 22050])"
  by (simp add: generate_voice_eq example_hello_voice preset_settings_def)

lemma app_start_dir: "pipeline_dir app_start = ''assets/audio''"
  by (simp add: pipeline_dir_def app_start_def)

lemma reference_env_simps:
  "path_exists reference_env ''voices/me.wav''"
  "float_round reference_env = Finite"
  "np_zeros_error reference_env n = None"
  "sf_write_error reference_env p = None"
  "py_hash reference_env s = 42"
  "subprocess_run reference_env cmd = ffmpeg_ok cmd"
  by (simp_all add: reference_env_def example_env_def)

lemma reference_voiceover_path:
  "voiceover_path reference_env ''assets/audio''
       \<lparr>request_text = tx, request_voice_settings = st\<rparr> = ''assets/audio/voiceover_42.wav''"
  by (simp add: voiceover_path_def reference_env_simps os_path_join_def str_int_def str_nat.simps)

lemma ffmpeg_ok_normalized:
  "subprocess_run env = ffmpeg_ok \<Longrightarrow>
   snd (normalize_loudness env ''assets/audio/voiceover_42.wav'' (- 16))
     = ''assets/audio/voiceover_42_normalized.wav''"
  by (simp add: normalize_loudness_path replace_example ffmpeg_ok_def)

section \<open>Loudness normalization and failure handling\<close>

text \<open>Claim C1, as stated: no operation reports success while substituting placeholder
  output for a failed computation. It fails on the code: when FFmpeg cannot be started,
  the first \<open>subprocess.run\<close> of \<open>_normalize_loudness\<close> raises, the handler returns the
  path of the silent placeholder that was never normalized, and \<open>/audio/generate\<close> answers
  success with that path.\<close>

theorem normalization_failure_reported_as_success:
  "isl (subprocess_run (example_env ffmpeg_missing [])
          (loudnorm_cmd ''assets/audio/voiceover_42.wav''
             ''assets/audio/voiceover_42_normalized.wav'' (- 16)))
   \<and> fst (generate_audio (example_env ffmpeg_missing []) app_start Map.empty
            \<lparr>request_text = ''hello world'', request_voice_settings = preset_settings\<rparr>)
       = AudioSuccess ''assets/audio/voiceover_42.wav'' (Finite (1 / 75))"
proof -
  have a: "isl (subprocess_run (example_env ffmpeg_missing [])
          (loudnorm_cmd ''assets/audio/voiceover_42.wav''
             ''assets/audio/voiceover_42_normalized.wav'' (- 16)))"
    by (simp add: example_env_def ffmpeg_missing_def)
  have d: "pipeline_dir app_start = ''assets/audio''"
    by (simp add: pipeline_dir_def app_start_def)
  have v: "generate_voice (example_env ffmpeg_missing []) Map.empty
             \<lparr>request_text = ''hello world'', request_voice_settings = preset_settings\<rparr>
             ''assets/audio/voiceover_42.wav''
           = Inr (''assets/audio/voiceover_42.wav'',
                  [''assets/audio/voiceover_42.wav'' \<mapsto> silent_wav 22050])"
    by (simp add: generate_voice_eq example_hello_voice preset_settings_def)
  have n: "snd (normalize_loudness (example_env ffmpeg_missing [])
                  ''assets/audio/voiceover_42.wav'' (- 16)) = ''assets/audio/voiceover_42.wav''"
    using a by (auto simp: normalize_loudness_path replace_example split: sum.splits)
  have "fst (generate_audio (example_env ffmpeg_missing []) app_start Map.empty
            \<lparr>request_text = ''hello world'', request_voice_settings = preset_settings\<rparr>)
       = AudioSuccess ''assets/audio/voiceover_42.wav'' (Finite (1 / 75))"
    unfolding generate_audio_eq generate_voiceover_eq d example_voiceover_path v
    by (simp add: n example_hello_duration)
  with a show ?thesis by simp
qed

text \<open>Claim C1, amended: an exception raised by the voice step is reported, the
  endpoint answers failure with its message. A failure of loudness normalization is
  not reported: once the voice step has written its file, the endpoint answers success
  whatever FFmpeg does. When the first run raises, or exits with a non-zero code and the
  fallback run raises, the answer carries the path of the placeholder, not normalized;
  when the first run exits with a non-zero code and the fallback run returns, whatever
  its exit code, and when the first run exits with code 0, the answer carries the
  \<open>_normalized.wav\<close> path.\<close>

theorem normalization_failure_never_reported:
  "(generate_voice env fs req (voiceover_path env (pipeline_dir app) req) = Inl e \<longrightarrow>
      fst (generate_audio env app fs req)
        = AudioFailure (str_error e) ''Try using preset voices instead of custom voice cloning'')
   \<and> (generate_voice env fs req (voiceover_path env (pipeline_dir app) req) = Inr (ap, fs') \<longrightarrow>
        (isl (subprocess_run env (loudnorm_cmd ap (normalized_path ap) (- 16))) \<longrightarrow>
           fst (generate_audio env app fs req) = AudioSuccess ap (reported_duration env req))
      \<and> (subprocess_run env (loudnorm_cmd ap (normalized_path ap) (- 16)) = Inr r \<longrightarrow>
          returncode r \<noteq> 0 \<longrightarrow>
            (isl (subprocess_run env (volume_cmd ap (normalized_path ap))) \<longrightarrow>
               fst (generate_audio env app fs req) = AudioSuccess ap (reported_duration env req))
          \<and> (\<not> isl (subprocess_run env (volume_cmd ap (normalized_path ap))) \<longrightarrow>
               fst (generate_audio env app fs req)
                 = AudioSuccess (normalized_path ap) (reported_duration env req)))
      \<and> (subprocess_run env (loudnorm_cmd ap (normalized_path ap) (- 16)) = Inr r \<longrightarrow>
          returncode r = 0 \<longrightarrow>
            fst (generate_audio env app fs req)
              = AudioSuccess (normalized_path ap) (reported_duration env req)))"
  by (auto simp: generate_audio_eq generate_voiceover_eq normalize_loudness_path split: sum.splits)

text \<open>Witness: a custom voice without a reference clip, and a preset request while
  FFmpeg is missing, while it vanishes after a failed first run, while it exits
  with code 1 on every run, and while it works.\<close>

theorem normalization_failure_never_reported_witness:
  "fst (generate_audio (example_env ffmpeg_ok []) app_start Map.empty
          \<lparr>request_text = ''hello world'', request_voice_settings = custom_settings\<rparr>)
     = AudioFailure ''Custom voice requires reference audio file (10-60s)''
         ''Try using preset voices instead of custom voice cloning''
   \<and> isl (subprocess_run (example_env ffmpeg_missing [])
            (loudnorm_cmd ''assets/audio/voiceover_42.wav''
               ''assets/audio/voiceover_42_normalized.wav'' (- 16)))
   \<and> fst (generate_audio (example_env ffmpeg_missing []) app_start Map.empty
            \<lparr>request_text = ''hello world'', request_voice_settings = preset_settings\<rparr>)
       = AudioSuccess ''assets/audio/voiceover_42.wav'' (Finite (1 / 75))
   \<and> subprocess_run (example_env ffmpeg_vanishing [])
            (loudnorm_cmd ''assets/audio/voiceover_42.wav''
               ''assets/audio/voiceover_42_normalized.wav'' (- 16))
       = Inr \<lparr>returncode = 1, stdout = [], stderr = ''Conversion failed!''\<rparr>
   \<and> isl (subprocess_run (example_env ffmpeg_vanishing [])
            (volume_cmd ''assets/audio/voiceover_42.wav''
               ''assets/audio/voiceover_42_normalized.wav''))
   \<and> fst (generate_audio (example_env ffmpeg_vanishing []) app_start Map.empty
            \<lparr>request_text = ''hello world'', request_voice_settings = preset_settings\<rparr>)
       = AudioSuccess ''assets/audio/voiceover_42.wav'' (Finite (1 / 75))
   \<and> subprocess_run (example_env ffmpeg_failing [])
            (volume_cmd ''assets/audio/voiceover_42.wav''
               ''assets/audio/voiceover_42_normalized.wav'')
       = Inr \<lparr>returncode = 1, stdout = [], stderr = ''Conversion failed!''\<rparr>
   \<and> fst (generate_audio (example_env ffmpeg_failing []) app_start Map.empty
            \<lparr>request_text = ''hello world'', request_voice_settings = preset_settings\<rparr>)
       = AudioSuccess ''assets/audio/voiceover_42_normalized.wav'' (Finite (1 / 75))
   \<and> returncode \<lparr>returncode = 0, stdout = '' DEV.LS h264 (encoders: h264_nvenc )'',
                     stderr = ''{ input_i : -70.0 }''\<rparr> = 0
   \<and> fst (generate_audio (example_env ffmpeg_ok []) app_start Map.empty
            \<lparr>request_text = ''hello world'', request_voice_settings = preset_settings\<rparr>)
       = AudioSuccess ''assets/audio/voiceover_42_normalized.wav'' (Finite (1 / 75))"
proof -
  let ?custom = "\<lparr>request_text = ''hello world'', request_voice_settings = custom_settings\<rparr>"
  let ?preset = "\<lparr>request_text = ''hello world'', request_voice_settings = preset_settings\<rparr>"
  let ?ap = "''assets/audio/voiceover_42.wav''"
  let ?out = "''assets/audio/voiceover_42_normalized.wav''"
  have c: "generate_voice (example_env ffmpeg_ok []) Map.empty ?custom
             (voiceover_path (example_env ffmpeg_ok []) (pipeline_dir app_start) ?custom)
           = Inl (ValueError ''Custom voice requires reference audio file (10-60s)'')"
    by (simp add: generate_voice_eq custom_settings_def reference_missing_def)
  have m1: "isl (subprocess_run (example_env ffmpeg_missing []) (loudnorm_cmd ?ap ?out (- 16)))"
    by (simp add: example_env_def ffmpeg_missing_def)
  have v1: "subprocess_run (example_env ffmpeg_vanishing []) (loudnorm_cmd ?ap ?out (- 16))
              = Inr \<lparr>returncode = 1, stdout = [], stderr = ''Conversion failed!''\<rparr>"
    by (simp add: example_env_def ffmpeg_vanishing_def audio_filters_loudnorm_cmd)
  have v2: "isl (subprocess_run (example_env ffmpeg_vanishing []) (volume_cmd ?ap ?out))"
    by (simp add: example_env_def ffmpeg_vanishing_def audio_filters_volume_cmd)
  have f1: "subprocess_run (example_env ffmpeg_failing []) (loudnorm_cmd ?ap ?out (- 16))
              = Inr \<lparr>returncode = 1, stdout = [], stderr = ''Conversion failed!''\<rparr>"
    by (simp add: example_env_def ffmpeg_failing_def)
  have f2: "subprocess_run (example_env ffmpeg_failing []) (volume_cmd ?ap ?out)
              = Inr \<lparr>returncode = 1, stdout = [], stderr = ''Conversion failed!''\<rparr>"
    by (simp add: example_env_def ffmpeg_failing_def)
  note t = normalization_failure_never_reported
  from t [of "example_env ffmpeg_ok []" Map.empty ?custom app_start
        "ValueError ''Custom voice requires reference audio file (10-60s)''"] c
  have A: "fst (generate_audio (example_env ffmpeg_ok []) app_start Map.empty ?custom)
     = AudioFailure ''Custom voice requires reference audio file (10-60s)''
         ''Try using preset voices instead of custom voice cloning''"
    by simp
  from t [of "example_env ffmpeg_missing []" Map.empty ?preset app_start _ ?ap
        "[?ap \<mapsto> silent_wav 22050]"] m1
  have B1: "fst (generate_audio (example_env ffmpeg_missing []) app_start Map.empty ?preset)
       = AudioSuccess ?ap (Finite (1 / 75))"
    by (simp add: app_start_dir example_voiceover_path preset_voice_example replace_example
        example_hello_duration)
  from t [of "example_env ffmpeg_vanishing []" Map.empty ?preset app_start _ ?ap
        "[?ap \<mapsto> silent_wav 22050]" "\<lparr>returncode = 1, stdout = [], stderr = ''Conversion failed!''\<rparr>"]
      v1 v2
  have B2: "fst (generate_audio (example_env ffmpeg_vanishing []) app_start Map.empty ?preset)
       = AudioSuccess ?ap (Finite (1 / 75))"
    by (simp add: app_start_dir example_voiceover_path preset_voice_example replace_example
        example_hello_duration)
  from t [of "example_env ffmpeg_failing []" Map.empty ?preset app_start _ ?ap
        "[?ap \<mapsto> silent_wav 22050]" "\<lparr>returncode = 1, stdout = [], stderr = ''Conversion failed!''\<rparr>"]
      f1 f2
  have B3: "fst (generate_audio (example_env ffmpeg_failing []) app_start Map.empty ?preset)
       = AudioSuccess ?out (Finite (1 / 75))"
    by (simp add: app_start_dir example_voiceover_path preset_voice_example replace_example
        example_hello_duration)
  have o1: "subprocess_run (example_env ffmpeg_ok []) (loudnorm_cmd ?ap ?out (- 16))
              = Inr \<lparr>returncode = 0, stdout = '' DEV.LS h264 (encoders: h264_nvenc )'',
                     stderr = ''{ input_i : -70.0 }''\<rparr>"
    by (simp add: example_env_def ffmpeg_ok_def)
  from t [of "example_env ffmpeg_ok []" Map.empty ?preset app_start _ ?ap
        "[?ap \<mapsto> silent_wav 22050]"
        "\<lparr>returncode = 0, stdout = '' DEV.LS h264 (encoders: h264_nvenc )'',
          stderr = ''{ input_i : -70.0 }''\<rparr>"] o1
  have B4: "fst (generate_audio (example_env ffmpeg_ok []) app_start Map.empty ?preset)
       = AudioSuccess ?out (Finite (1 / 75))"
    by (simp add: app_start_dir example_voiceover_path preset_voice_example replace_example
        example_hello_duration)
  from A m1 B1 v1 v2 B2 f2 B3 B4 show ?thesis by simp
qed

text \<open>Claim C2: every FFmpeg invocation of \<open>_normalize_loudness\<close> has \<open>volume=1.0\<close> as
  its last, hence effective, audio filter, and no invocation carries any filter but the
  loudnorm measurement for the requested target and \<open>volume=1.0\<close>: nothing read from
  FFmpeg's output reaches a command, so the measured gain is never applied.\<close>

theorem normalize_loudness_applies_unit_gain:
  "fst (normalize_loudness env p t) \<noteq> [] \<and>
   (\<forall>c \<in> set (fst (normalize_loudness env p t)).
      audio_filters c \<noteq> [] \<and> last (audio_filters c) = ''volume=1.0'' \<and>
      set (audio_filters c) \<subseteq> {loudnorm_filter t, ''volume=1.0''})"
  using normalize_loudness_cmds [of env p t]
  by (auto simp: audio_filters_loudnorm_cmd audio_filters_volume_cmd)

text \<open>Witness: the run in which FFmpeg succeeds and prints a measurement.\<close>

theorem normalize_loudness_applies_unit_gain_witness:
  "volume_cmd ''a.wav'' ''a_normalized.wav''
     \<in> set (fst (normalize_loudness (example_env ffmpeg_ok []) ''a.wav'' (- 16)))
   \<and> last (audio_filters (volume_cmd ''a.wav'' ''a_normalized.wav'')) = ''volume=1.0''
   \<and> set (audio_filters (volume_cmd ''a.wav'' ''a_normalized.wav''))
         \<subseteq> {loudnorm_filter (- 16), ''volume=1.0''}"
proof -
  have mem: "volume_cmd ''a.wav'' ''a_normalized.wav''
     \<in> set (fst (normalize_loudness (example_env ffmpeg_ok []) ''a.wav'' (- 16)))"
    by (simp add: normalize_loudness_def example_env_def ffmpeg_ok_def Let_def
        py_replace.simps loudnorm_cmd_def)
  from normalize_loudness_applies_unit_gain [of "example_env ffmpeg_ok []" "''a.wav''" "- 16"] mem
  show ?thesis by blast
qed

section \<open>The voice stage\<close>

text \<open>Claim C3, as stated: a custom voice without a usable reference clip falls back to a
  preset voice and completes. It fails on the code: the request raises \<open>ValueError\<close> and
  \<open>/audio/generate\<close> answers failure; no file is written.\<close>

theorem custom_voice_without_reference_no_fallback:
  "generate_voiceover (example_env ffmpeg_ok []) ''assets/audio'' Map.empty
       \<lparr>request_text = ''hello world'', request_voice_settings = custom_settings\<rparr>
     = Inl (ValueError ''Custom voice requires reference audio file (10-60s)'')
   \<and> generate_audio (example_env ffmpeg_ok []) app_start Map.empty
       \<lparr>request_text = ''hello world'', request_voice_settings = custom_settings\<rparr>
     = (AudioFailure ''Custom voice requires reference audio file (10-60s)''
          ''Try using preset voices instead of custom voice cloning'',
        app_start\<lparr>state_audio_pipeline := Some ''assets/audio''\<rparr>, Map.empty)"
  by (simp add: generate_audio_def generate_voiceover_eq generate_voice_eq Let_def
      custom_settings_def reference_missing_def app_start_def pipeline_dir_def)

text \<open>Claim C3, amended: a voice request that is not a preset and whose reference clip
  is absent, empty or not on disk raises \<open>ValueError\<close>; the endpoint answers failure with
  that message and the advice to use preset voices, and writes no file.\<close>

theorem custom_voice_without_reference_fails:
  "voice_type (request_voice_settings req) \<noteq> ''preset'' \<Longrightarrow>
   reference_missing env (request_voice_settings req) \<Longrightarrow>
     generate_voiceover env dir fs req
       = Inl (ValueError ''Custom voice requires reference audio file (10-60s)'')
     \<and> fst (generate_audio env app fs req)
       = AudioFailure ''Custom voice requires reference audio file (10-60s)''
           ''Try using preset voices instead of custom voice cloning''
     \<and> snd (snd (generate_audio env app fs req)) = fs"
  by (simp add: generate_audio_eq generate_audio_files generate_voiceover_eq generate_voice_eq)

text \<open>Witness: a custom voice with no reference path.\<close>

theorem custom_voice_without_reference_fails_witness:
  "voice_type custom_settings \<noteq> ''preset''
   \<and> reference_missing (example_env ffmpeg_ok []) custom_settings
   \<and> fst (generate_audio (example_env ffmpeg_ok []) app_start Map.empty
       \<lparr>request_text = ''hello world'', request_voice_settings = custom_settings\<rparr>)
       = AudioFailure ''Custom voice requires reference audio file (10-60s)''
           ''Try using preset voices instead of custom voice cloning''"
proof -
  have a: "voice_type (request_voice_settings
       \<lparr>request_text = ''hello world'', request_voice_settings = custom_settings\<rparr>) \<noteq> ''preset''"
    by (simp add: custom_settings_def)
  have b: "reference_missing (example_env ffmpeg_ok []) (request_voice_settings
       \<lparr>request_text = ''hello world'', request_voice_settings = custom_settings\<rparr>)"
    by (simp add: custom_settings_def reference_missing_def)
  from custom_voice_without_reference_fails [OF a b, of "''assets/audio''" Map.empty app_start] a b
  show ?thesis by simp
qed

text \<open>Claim C7: whenever a voiceover request returns, the path it returns is the one
  loudness normalization gives and the file written at the voiceover path holds only
  zero-valued samples at 22050 Hz, whatever the text. A preset request, or a custom
  request whose reference clip is on disk, returns and writes that file of \<open>n\<close>
  zeros whenever the sample count \<open>int(sample_rate * duration)\<close> is a number \<open>n\<close> that is
  not negative, the array can be allocated and the file can be written.\<close>

theorem voiceover_file_is_silence:
  "(generate_voiceover env dir fs req = Inr (p, fs') \<longrightarrow>
      p = snd (normalize_loudness env (voiceover_path env dir req) (- 16))
      \<and> (\<exists>w. fs' = fs(voiceover_path env dir req \<mapsto> w) \<and> wav_rate w = 22050
               \<and> (\<forall>s \<in> set (wav_samples w). s = 0)))
   \<and> ((voice_type (request_voice_settings req) = ''preset''
          \<or> \<not> reference_missing env (request_voice_settings req)) \<longrightarrow>
       placeholder_samples env (request_text req) (request_voice_settings req) = Inr n \<longrightarrow>
       0 \<le> n \<longrightarrow> np_zeros_error env (nat n) = None \<longrightarrow>
       sf_write_error env (voiceover_path env dir req) = None \<longrightarrow>
         generate_voiceover env dir fs req
           = Inr (snd (normalize_loudness env (voiceover_path env dir req) (- 16)),
                  fs(voiceover_path env dir req \<mapsto>
                       \<lparr>wav_samples = replicate (nat n) 0, wav_rate = 22050\<rparr>)))"
proof (intro conjI impI)
  assume a: "generate_voiceover env dir fs req = Inr (p, fs')"
  then obtain ap where v: "generate_voice env fs req (voiceover_path env dir req) = Inr (ap, fs')"
    and p: "p = snd (normalize_loudness env ap (- 16))"
    by (auto simp: generate_voiceover_eq split: sum.splits)
  from v have w: "write_placeholder env fs (request_text req) (voiceover_path env dir req)
                    (request_voice_settings req) = Inr (ap, fs')"
    by (auto simp: generate_voice_eq split: if_splits)
  from write_placeholder_Inr [OF w] obtain n where
    ap: "ap = voiceover_path env dir req" and
    fs': "fs' = fs(voiceover_path env dir req \<mapsto> silent_wav n)" by blast
  show "p = snd (normalize_loudness env (voiceover_path env dir req) (- 16))"
    using p ap by simp
  show "\<exists>w. fs' = fs(voiceover_path env dir req \<mapsto> w) \<and> wav_rate w = 22050
             \<and> (\<forall>s \<in> set (wav_samples w). s = 0)"
    using fs' by (auto simp: silent_wav_def)
next
  assume "voice_type (request_voice_settings req) = ''preset''
          \<or> \<not> reference_missing env (request_voice_settings req)"
    and "placeholder_samples env (request_text req) (request_voice_settings req) = Inr n"
    and "0 \<le> n" and "np_zeros_error env (nat n) = None"
    and "sf_write_error env (voiceover_path env dir req) = None"
  then show "generate_voiceover env dir fs req
           = Inr (snd (normalize_loudness env (voiceover_path env dir req) (- 16)),
                  fs(voiceover_path env dir req \<mapsto>
                       \<lparr>wav_samples = replicate (nat n) 0, wav_rate = 22050\<rparr>))"
    using write_placeholder_ok [of env "request_text req" "request_voice_settings req" n
        "voiceover_path env dir req" fs]
    by (auto simp: generate_voiceover_eq generate_voice_eq silent_wav_def)
qed

text \<open>Witness: a preset request, and a custom request with its reference clip on disk,
  each for two words.\<close>

theorem voiceover_file_is_silence_witness:
  "voice_type preset_settings = ''preset''
   \<and> placeholder_samples (example_env ffmpeg_ok []) ''hello world'' preset_settings = Inr 22050
   \<and> generate_voiceover (example_env ffmpeg_ok []) ''assets/audio'' Map.empty
        \<lparr>request_text = ''hello world'', request_voice_settings = preset_settings\<rparr>
      = Inr (''assets/audio/voiceover_42_normalized.wav'',
             [''assets/audio/voiceover_42.wav'' \<mapsto>
                \<lparr>wav_samples = replicate 22050 0, wav_rate = 22050\<rparr>])
   \<and> voice_type custom_with_reference \<noteq> ''preset''
   \<and> \<not> reference_missing reference_env custom_with_reference
   \<and> placeholder_samples reference_env ''hello world'' custom_with_reference = Inr 22050
   \<and> generate_voiceover reference_env ''assets/audio'' Map.empty
        \<lparr>request_text = ''hello world'', request_voice_settings = custom_with_reference\<rparr>
      = Inr (''assets/audio/voiceover_42_normalized.wav'',
             [''assets/audio/voiceover_42.wav'' \<mapsto>
                \<lparr>wav_samples = replicate 22050 0, wav_rate = 22050\<rparr>])"
proof -
  let ?preset = "\<lparr>request_text = ''hello world'', request_voice_settings = preset_settings\<rparr>"
  let ?custom = "\<lparr>request_text = ''hello world'', request_voice_settings = custom_with_reference\<rparr>"
  have p1: "voice_type preset_settings = ''preset''" by (simp add: preset_settings_def)
  have p2: "placeholder_samples (example_env ffmpeg_ok []) ''hello world'' preset_settings = Inr 22050"
    by (simp add: example_hello_samples preset_settings_def)
  have p3: "np_zeros_error (example_env ffmpeg_ok []) (nat 22050) = None"
    "sf_write_error (example_env ffmpeg_ok []) ''assets/audio/voiceover_42.wav'' = None"
    by (simp_all add: example_env_def)
  have p4: "snd (normalize_loudness (example_env ffmpeg_ok []) ''assets/audio/voiceover_42.wav'' (- 16))
     = ''assets/audio/voiceover_42_normalized.wav''"
    by (rule ffmpeg_ok_normalized) (simp add: example_env_def)
  have c1: "voice_type custom_with_reference \<noteq> ''preset''"
    by (simp add: custom_with_reference_def)
  have c2: "\<not> reference_missing reference_env custom_with_reference"
    by (simp add: reference_missing_def custom_with_reference_def reference_env_simps)
  have c3: "placeholder_samples reference_env ''hello world'' custom_with_reference = Inr 22050"
    by (simp add: placeholder_samples_def placeholder_duration_def hello_world_words
        reference_env_simps py_max_one_def custom_with_reference_def)
  have c4: "snd (normalize_loudness reference_env ''assets/audio/voiceover_42.wav'' (- 16))
     = ''assets/audio/voiceover_42_normalized.wav''"
    by (rule ffmpeg_ok_normalized) (simp add: reference_env_def example_env_def)
  have z: "(0::int) \<le> 22050" by simp
  have pd: "voice_type (request_voice_settings ?preset) = ''preset''
              \<or> \<not> reference_missing (example_env ffmpeg_ok []) (request_voice_settings ?preset)"
    using p1 by simp
  have ps: "placeholder_samples (example_env ffmpeg_ok []) (request_text ?preset)
              (request_voice_settings ?preset) = Inr 22050"
    using p2 by simp
  have pw: "sf_write_error (example_env ffmpeg_ok [])
              (voiceover_path (example_env ffmpeg_ok []) ''assets/audio'' ?preset) = None"
    by (simp add: example_env_def)
  have P0: "generate_voiceover (example_env ffmpeg_ok []) ''assets/audio'' Map.empty ?preset
      = Inr (snd (normalize_loudness (example_env ffmpeg_ok [])
                    (voiceover_path (example_env ffmpeg_ok []) ''assets/audio'' ?preset) (- 16)),
             [voiceover_path (example_env ffmpeg_ok []) ''assets/audio'' ?preset \<mapsto>
                \<lparr>wav_samples = replicate (nat 22050) 0, wav_rate = 22050\<rparr>])"
    using voiceover_file_is_silence [of "example_env ffmpeg_ok []" "''assets/audio''" Map.empty
        ?preset "[]" Map.empty 22050, THEN conjunct2, rule_format, OF pd ps z p3(1) pw] .
  have P: "generate_voiceover (example_env ffmpeg_ok []) ''assets/audio'' Map.empty ?preset
      = Inr (''assets/audio/voiceover_42_normalized.wav'',
             [''assets/audio/voiceover_42.wav'' \<mapsto>
                \<lparr>wav_samples = replicate 22050 0, wav_rate = 22050\<rparr>])"
    using P0 unfolding example_voiceover_path p4 by simp
  have cd: "voice_type (request_voice_settings ?custom) = ''preset''
              \<or> \<not> reference_missing reference_env (request_voice_settings ?custom)"
    using c2 by simp
  have cs: "placeholder_samples reference_env (request_text ?custom)
              (request_voice_settings ?custom) = Inr 22050"
    using c3 by simp
  have cn: "np_zeros_error reference_env (nat 22050) = None"
    by (rule reference_env_simps)
  have cw: "sf_write_error reference_env
              (voiceover_path reference_env ''assets/audio'' ?custom) = None"
    by (rule reference_env_simps)
  have C0: "generate_voiceover reference_env ''assets/audio'' Map.empty ?custom
      = Inr (snd (normalize_loudness reference_env
                    (voiceover_path reference_env ''assets/audio'' ?custom) (- 16)),
             [voiceover_path reference_env ''assets/audio'' ?custom \<mapsto>
                \<lparr>wav_samples = replicate (nat 22050) 0, wav_rate = 22050\<rparr>])"
    using voiceover_file_is_silence [of reference_env "''assets/audio''" Map.empty
        ?custom "[]" Map.empty 22050, THEN conjunct2, rule_format, OF cd cs z cn cw] .
  have C: "generate_voiceover reference_env ''assets/audio'' Map.empty ?custom
      = Inr (''assets/audio/voiceover_42_normalized.wav'',
             [''assets/audio/voiceover_42.wav'' \<mapsto>
                \<lparr>wav_samples = replicate 22050 0, wav_rate = 22050\<rparr>])"
    using C0 unfolding reference_voiceover_path c4 by simp
  from p1 p2 P c1 c2 c3 C show ?thesis by simp
qed

text \<open>A script of 112 words, the count the prompt asks for at 45 seconds, yields a
  placeholder of one second.\<close>

lemma split_words_habit:
  "split_words [] (concat (replicate n ''habit '')) = replicate n ''habit''"
  by (induction n) (simp_all add: is_space_def)

lemma words_112: "length (py_split script_112_words) = 112"
  by (simp add: py_split_def script_112_words_def split_words_habit)

text \<open>Claim C6, evaluated on the code: for the 45-second job the prompt asks for 112
  words; a script of 112 words at speed 1 gives \<open>max(1, 112 / 150 * 1) = 1\<close>, so the file
  holds 22050 samples at 22050 Hz, one second, and the endpoint reports
  \<open>duration_seconds = 56 / 75\<close>. Neither is within ten percent of 45 seconds.\<close>

theorem voiceover_of_112_words_lasts_one_second:
  "py_int (target_words daily_habits) = 112
   \<and> length (py_split script_112_words) = 112
   \<and> generate_audio (example_env ffmpeg_ok []) app_start Map.empty
        \<lparr>request_text = script_112_words, request_voice_settings = preset_settings\<rparr>
      = (AudioSuccess ''assets/audio/voiceover_42_normalized.wav'' (Finite (56 / 75)),
         app_start\<lparr>state_audio_pipeline := Some ''assets/audio''\<rparr>,
         [''assets/audio/voiceover_42.wav'' \<mapsto>
            \<lparr>wav_samples = replicate 22050 0, wav_rate = 22050\<rparr>])
   \<and> \<not> within_ten_percent (22050 / 22050) 45
   \<and> \<not> within_ten_percent (56 / 75) 45"
proof -
  let ?req = "\<lparr>request_text = script_112_words, request_voice_settings = preset_settings\<rparr>"
  have "\<lfloor>(225::rat) / 2\<rfloor> = 112" by (rule floor_unique) simp_all
  then have tw: "py_int (target_words daily_habits) = 112"
    by (simp add: target_words_def daily_habits_def py_int_def)
  have d: "placeholder_duration (example_env ffmpeg_ok []) script_112_words preset_settings = PyInt 1"
    by (simp add: placeholder_duration_def words_112 preset_settings_def example_env_def
        py_max_one_def)
  have s: "placeholder_samples (example_env ffmpeg_ok []) script_112_words preset_settings = Inr 22050"
    by (simp add: placeholder_samples_def d)
  have v: "generate_voice (example_env ffmpeg_ok []) Map.empty ?req ''assets/audio/voiceover_42.wav''
             = Inr (''assets/audio/voiceover_42.wav'',
                    [''assets/audio/voiceover_42.wav'' \<mapsto> silent_wav 22050])"
    using write_placeholder_ok [of "example_env ffmpeg_ok []" script_112_words preset_settings
        22050 "''assets/audio/voiceover_42.wav''" Map.empty] s
    by (simp add: generate_voice_eq preset_settings_def) (simp add: example_env_def)
  have n: "snd (normalize_loudness (example_env ffmpeg_ok []) ''assets/audio/voiceover_42.wav'' (- 16))
             = ''assets/audio/voiceover_42_normalized.wav''"
    by (rule ffmpeg_ok_normalized) (simp add: example_env_def)
  have r: "reported_duration (example_env ffmpeg_ok []) ?req = Finite (56 / 75)"
    by (simp add: reported_duration_def words_112 preset_settings_def example_env_def)
  have g: "generate_audio (example_env ffmpeg_ok []) app_start Map.empty ?req
      = (AudioSuccess ''assets/audio/voiceover_42_normalized.wav'' (Finite (56 / 75)),
         app_start\<lparr>state_audio_pipeline := Some ''assets/audio''\<rparr>,
         [''assets/audio/voiceover_42.wav'' \<mapsto>
            \<lparr>wav_samples = replicate 22050 0, wav_rate = 22050\<rparr>])"
    unfolding generate_audio_def generate_voiceover_eq
    by (simp add: Let_def app_start_def pipeline_dir_def example_voiceover_path v n r silent_wav_def)
  have w: "\<not> within_ten_percent (22050 / 22050) 45" "\<not> within_ten_percent (56 / 75) 45"
    by (simp_all add: within_ten_percent_def)
  from tw words_112 g w show ?thesis by simp
qed

text \<open>Where the float product overflows, \<open>int\<close> raises \<open>OverflowError\<close> and the preset
  request fails.\<close>

lemma words_300: "length (py_split script_300_words) = 300"
  by (simp add: py_split_def script_300_words_def split_words_habit)

lemma preset_voice_overflow:
  "generate_voiceover overflow_env ''assets/audio'' Map.empty
       \<lparr>request_text = script_300_words, request_voice_settings = fast_settings\<rparr>
     = Inl (OverflowError ''cannot convert float infinity to integer'')
   \<and> fst (generate_audio overflow_env app_start Map.empty
            \<lparr>request_text = script_300_words, request_voice_settings = fast_settings\<rparr>)
     = AudioFailure ''cannot convert float infinity to integer''
         ''Try using preset voices instead of custom voice cloning''"
proof -
  have d: "placeholder_duration overflow_env script_300_words fast_settings = PyFloat PosInf"
    by (simp add: placeholder_duration_def words_300 overflow_env_def fast_settings_def
        binary64_round_def py_max_one_def)
  have s: "placeholder_samples overflow_env script_300_words fast_settings
             = Inl (OverflowError ''cannot convert float infinity to integer'')"
    by (simp add: placeholder_samples_def d)
  have vt: "voice_type fast_settings = ''preset''"
    by (simp add: fast_settings_def)
  have v: "generate_voiceover overflow_env ''assets/audio'' Map.empty
       \<lparr>request_text = script_300_words, request_voice_settings = fast_settings\<rparr>
     = Inl (OverflowError ''cannot convert float infinity to integer'')"
    by (simp add: generate_voiceover_eq generate_voice_eq write_placeholder_def s vt)
  show ?thesis
    unfolding generate_audio_eq app_start_dir v by (simp add: v)
qed

section \<open>The script stage\<close>

lemma generate_script_200:
  "is_model_loaded self \<Longrightarrow>
   http_post env (base_url self @ ''/api/generate'') (script_payload self req) = Inr resp \<Longrightarrow>
   status resp = 200 \<Longrightarrow>
   fst (generate_script env self req) =
     Inr (script_from_response env req (case response_field resp of None \<Rightarrow> [] | Some t \<Rightarrow> t))"
  by (simp add: generate_script_def Let_def)

text \<open>After a 200 response the result is \<open>None\<close> exactly when the text has no opening
  brace, or no closing brace after it.\<close>

lemma script_from_response_none:
  "(script_from_response env req t = None)
     = (py_find t (CHR ''{'') = - 1 \<or> py_rfind t (CHR ''}'') + 1 \<le> py_find t (CHR ''{''))"
  by (auto simp: script_from_response_def Let_def split: option.splits)

lemma example_generate_script:
  "fst (generate_script (example_env run reply) client_start req)
     = Inr (script_from_response (example_env run reply) req reply)"
  by (simp add: generate_script_def Let_def example_env_def load_model_def client_start_def
      script_from_response_def)

text \<open>Claim C4, evaluated on the code: the backend answers 200 with a reply that holds
  no brace; \<open>generate_script\<close> returns \<open>None\<close>, which is no dictionary.\<close>

theorem generate_script_returns_none_on_200:
  "fst (generate_script (example_env ffmpeg_ok ''Here is your script: open on a sunrise.'')
          client_start daily_habits) = Inr None
   \<and> \<not> is_structured_script None"
  unfolding example_generate_script
  by (simp add: script_from_response_def py_find_def py_rfind_def Let_def is_structured_script_def)

text \<open>Claim C5, as stated: in the daily-habits scenario every script the stage produces
  has at least three scenes. It fails on the code: a reply whose braces do not hold
  JSON is wrapped into a script of exactly one scene.\<close>

theorem fallback_script_has_one_scene:
  "fst (generate_script (example_env ffmpeg_ok ''{oops}'') client_start daily_habits)
     = Inr (Some (fallback_script daily_habits ''{oops}''))
   \<and> scene_count (Some (fallback_script daily_habits ''{oops}'')) = 1
   \<and> \<not> 3 \<le> scene_count (Some (fallback_script daily_habits ''{oops}''))"
  unfolding example_generate_script
  by (simp add: script_from_response_def py_find_def py_rfind_def py_slice_def Let_def
      example_env_def scene_count_def scenes_of_def fallback_script_def)

text \<open>Claim C5, amended: the script stage does not check the number of scenes. A script
  it returns is either the dictionary it builds itself when \<open>json.loads\<close> rejects the
  text from the first opening to the last closing brace, which has exactly one scene, or
  the value \<open>json.loads\<close> gives for that text, unchanged.\<close>

theorem script_scenes_not_validated:
  "script_from_response env req t = Some s \<Longrightarrow>
     (if json_loads env (py_slice t (py_find t (CHR ''{'')) (py_rfind t (CHR ''}'') + 1)) = None
      then s = fallback_script req t \<and> scene_count (Some s) = 1
      else json_loads env (py_slice t (py_find t (CHR ''{'')) (py_rfind t (CHR ''}'') + 1)) = Some s)"
  by (auto simp: script_from_response_def Let_def scene_count_def scenes_of_def fallback_script_def
      split: if_splits option.splits)

text \<open>Witness: the daily-habits request and a reply that is not JSON.\<close>

theorem script_scenes_not_validated_witness:
  "script_from_response (example_env ffmpeg_ok ''{oops}'') daily_habits ''{oops}''
     = Some (fallback_script daily_habits ''{oops}'')
   \<and> json_loads (example_env ffmpeg_ok ''{oops}'') ''{oops}'' = None
   \<and> scene_count (Some (fallback_script daily_habits ''{oops}'')) = 1"
proof -
  have a: "script_from_response (example_env ffmpeg_ok ''{oops}'') daily_habits ''{oops}''
     = Some (fallback_script daily_habits ''{oops}'')"
    by (simp add: script_from_response_def py_find_def py_rfind_def py_slice_def Let_def
        example_env_def)
  have b: "py_slice ''{oops}'' (py_find ''{oops}'' (CHR ''{'')) (py_rfind ''{oops}'' (CHR ''}'') + 1)
            = ''{oops}''"
    by (simp add: py_find_def py_rfind_def py_slice_def)
  have c: "json_loads (example_env ffmpeg_ok ''{oops}'') ''{oops}'' = None"
    by (simp add: example_env_def)
  from script_scenes_not_validated [OF a] a c show ?thesis
    unfolding b by simp
qed

section \<open>The render stage\<close>







text \<open>The command always ends in the fixed name \<open>output.mp4\<close>, and the path
  \<open>export_video\<close> returns is never that name.\<close>

lemma build_last:
  "last (build_ffmpeg_command env res frames cdc bitrate clips audio captions) = ''output.mp4''"
  by (simp add: build_ffmpeg_command_def Let_def)

lemma export_output_path_not_fixed: "export_output_path env self \<noteq> ''output.mp4''"
proof
  assume a: "export_output_path env self = ''output.mp4''"
  have "\<exists>pre. export_output_path env self = pre @ ''short_'' @ now_strftime env @ ''.mp4''"
    by (auto simp: export_output_path_def os_path_join_def)
  then obtain pre where e: "pre @ ''short_'' @ now_strftime env @ ''.mp4'' = ''output.mp4''"
    using a by metis
  have m: "CHR ''s'' \<in> set (pre @ ''short_'' @ now_strftime env @ ''.mp4'')" by simp
  from m show False unfolding e by simp
qed

lemma export_video_path_differs_from_command_output:
  "export_video env self settings clips audio captions = Inr p \<Longrightarrow>
     codec settings = Some cdc \<Longrightarrow>
     p = export_output_path env self
     \<and> last (export_command env settings cdc clips audio captions) = ''output.mp4''
     \<and> p \<noteq> last (export_command env settings cdc clips audio captions)"
  using export_output_path_not_fixed [of env self]
  by (auto simp: export_video_def export_command_def build_last Let_def
      split: sum.splits if_splits)

text \<open>Claim C10, evaluated on the code: the export of \<open>test_video_engine\<close> with FFmpeg
  succeeding returns the timestamped path under the output directory, while the last
  argument of the command it ran is \<open>output.mp4\<close>.\<close>

theorem export_video_returns_path_not_written:
  "export_video (example_env ffmpeg_ok []) test_engine test_settings [] ''assets/audio/test.wav'' None
     = Inr ''output/short_20240101_120000.mp4''
   \<and> last (export_command (example_env ffmpeg_ok []) test_settings (Some ''h.264'') []
             ''assets/audio/test.wav'' None) = ''output.mp4''"
  by (simp add: export_video_def export_command_def build_last Let_def test_settings_def
      test_engine_def export_output_path_def os_path_join_def example_env_def ffmpeg_ok_def)

section \<open>The resource budget\<close>

lemma in_use_append: "in_use (ls @ [w]) = in_use ls + reserved w"
  by (simp add: in_use_def)

lemma in_use_filter: "in_use (filter P ls) \<le> in_use ls"
  by (induction ls) (auto simp: in_use_def)

lemma grant_waiters_bound:
  "in_use ls \<le> cap \<Longrightarrow> in_use (fst (grant_waiters cap ls ws)) \<le> cap"
  by (induction ws arbitrary: ls) (auto simp: in_use_append)

lemma acquire_ok: "budget_ok st \<Longrightarrow> budget_ok (snd (acquire st n m))"
  by (auto simp: budget_ok_def acquire_def Let_def available_def in_use_append)

lemma acquire_total: "total (snd (acquire st n m)) = total st"
  by (auto simp: acquire_def Let_def)

lemma release_ok: "budget_ok st \<Longrightarrow> budget_ok (release st lid)"
proof -
  assume ok: "budget_ok st"
  let ?kept = "filter (\<lambda>l. lease_id l \<noteq> lid) (leased st)"
  have "in_use ?kept \<le> total st"
    using ok in_use_filter [of _ "leased st"] by (metis budget_ok_def le_trans)
  then have "in_use (fst (grant_waiters (total st) ?kept (waiters st))) \<le> total st"
    by (rule grant_waiters_bound)
  then show ?thesis
    using ok by (auto simp: release_def budget_ok_def Let_def split: prod.splits)
qed

lemma release_total: "total (release st lid) = total st"
  by (auto simp: release_def Let_def split: prod.splits)

lemma budget_step_ok: "budget_ok st \<Longrightarrow> budget_ok (budget_step st op)"
  by (cases op) (auto simp: acquire_ok release_ok)

lemma budget_step_total: "total (budget_step st op) = total st"
  by (cases op) (auto simp: acquire_total release_total)

lemma budget_run_ok:
  "budget_ok st \<Longrightarrow> budget_ok (budget_run st ops) \<and> total (budget_run st ops) = total st"
  unfolding budget_run_def
  by (induction ops arbitrary: st) (auto simp: budget_step_ok budget_step_total)

text \<open>Claim C9: after any sequence of acquire and release calls on a budget started
  with a given capacity, \<open>available()\<close> is neither negative nor above that capacity.\<close>

theorem available_within_capacity:
  "0 \<le> available (budget_run (budget_init capacity) ops)
   \<and> available (budget_run (budget_init capacity) ops) \<le> int capacity"
proof -
  have "budget_ok (budget_init capacity)"
    by (simp add: budget_ok_def budget_init_def in_use_def)
  from budget_run_ok [OF this, of ops]
  show ?thesis by (simp add: available_def budget_ok_def budget_init_def)
qed

end
